theory Spec2Isabelle
  imports Main
begin

section \<open>Values read from the configuration file\<close>

text \<open>
  The server manager of \<^verbatim>\<open>flask_app.py\<close> reads \<^verbatim>\<open>server_config.json\<close>. The entry of one
  server is a JSON object; its values are modelled as scalar JSON values (strings,
  integers, booleans, null), and the object as an association list in file order.
\<close>

datatype jvalue = JStr string | JInt int | JBool bool | JNull

type_synonym server_config = "(string \<times> jvalue) list"

text \<open>
  The whole file: the object under \<^verbatim>\<open>'servers'\<close> (every access in the source is
  \<^verbatim>\<open>self.config.get('servers', {})\<close>, so a missing key is the empty map) and the entry
  \<^verbatim>\<open>'default_server'\<close>: \<open>None\<close> when the key is missing, \<open>Some None\<close> for JSON null,
  \<open>Some (Some n)\<close> for a name.
\<close>

record app_config =
  servers :: "string \<rightharpoonup> server_config"
  default_server :: "string option option"

text \<open>Python's \<^verbatim>\<open>str\<close> on a scalar JSON value.\<close>

definition digit_char :: "nat \<Rightarrow> char" where
  "digit_char d = char_of (48 + d)"

fun str_nat :: "nat \<Rightarrow> string" where
  "str_nat n = (if n < 10 then [digit_char n] else str_nat (n div 10) @ [digit_char (n mod 10)])"

declare str_nat.simps [simp del]

definition py_str :: "jvalue \<Rightarrow> string" where
  "py_str v = (case v of
       JStr s \<Rightarrow> s
     | JInt i \<Rightarrow> (if i < 0 then CHR ''-'' # str_nat (nat (- i)) else str_nat (nat i))
     | JBool b \<Rightarrow> (if b then ''True'' else ''False'')
     | JNull \<Rightarrow> ''None'')"

section \<open>The operating system as seen through \<^verbatim>\<open>subprocess\<close>\<close>

datatype py_exception = KeyError string | TypeError | OSError string | TimeoutExpired

text \<open>
  A process is alive, or has received SIGTERM and exits after the given number of
  seconds with the given code, or has exited with a return code.
\<close>

datatype proc_state = Alive | Terminating nat int | Exited int

text \<open>
  What a launched program does: how it reacts to SIGTERM (\<open>None\<close>: the signal is
  ignored; \<open>Some (d, c)\<close>: it exits \<open>d\<close> seconds later with code \<open>c\<close>) and the payload
  it would write back for a \<^verbatim>\<open>tools/call\<close> request on its standard input.
\<close>

record program =
  on_sigterm :: "(nat \<times> int) option"
  tool_reply :: "string \<Rightarrow> (string \<times> jvalue) list \<Rightarrow> string"

record os_process =
  state :: proc_state
  argv :: "string list"
  prog :: program

datatype helper_outcome = Completed int string | Raised py_exception

datatype os_call =
    Spawn "string list"
  | Poll nat
  | SigTerm nat
  | SigKill nat
  | Wait nat "nat option"
  | RunHelper string

text \<open>
  The world outside the manager: the process table by pid, the next free pid, what
  executing a command line gives (an OS error text, or a program), which pids the
  OS refuses to signal, the clock in seconds, what running the temporary helper
  script of \<^verbatim>\<open>call_tool\<close> gives, and the trace of the calls made so far.
\<close>

record os_world =
  procs :: "nat \<rightharpoonup> os_process"
  next_pid :: nat
  programs :: "string list \<Rightarrow> string + program"
  signal_denied :: "nat \<Rightarrow> string option"
  clock :: int
  helper :: "string \<Rightarrow> (string \<times> jvalue) list \<Rightarrow> helper_outcome"
  calls :: "os_call list"

definition logged :: "os_call \<Rightarrow> os_world \<Rightarrow> os_world" where
  "logged c w = w\<lparr>calls := calls w @ [c]\<rparr>"

text \<open>
  The return code the OS holds for a pid. A pid that is not (or no longer) a child
  of this process is reported by CPython's \<^verbatim>\<open>Popen\<close> with return code 0.
\<close>

definition returncode :: "os_world \<Rightarrow> nat \<Rightarrow> int option" where
  "returncode w p = (case procs w p of
       None \<Rightarrow> Some 0
     | Some pr \<Rightarrow> (case state pr of Exited c \<Rightarrow> Some c | _ \<Rightarrow> None))"

text \<open>\<^verbatim>\<open>process.poll()\<close>: asks the OS each time it is called.\<close>

definition poll :: "os_world \<Rightarrow> nat \<Rightarrow> int option \<times> os_world" where
  "poll w p = (returncode w p, logged (Poll p) w)"

definition set_state :: "nat \<Rightarrow> proc_state \<Rightarrow> os_world \<Rightarrow> os_world" where
  "set_state p s w = (case procs w p of
       None \<Rightarrow> w
     | Some pr \<Rightarrow> w\<lparr>procs := (procs w)(p \<mapsto> pr\<lparr>state := s\<rparr>)\<rparr>)"

text \<open>
  \<^verbatim>\<open>process.terminate()\<close> and \<^verbatim>\<open>process.kill()\<close>: nothing is sent to a process that has
  completed; otherwise the OS may refuse the signal (the exception of the source's
  \<^verbatim>\<open>except Exception\<close> branch). SIGKILL cannot be ignored: return code -9.
\<close>

definition deliver_sigterm :: "nat \<Rightarrow> os_world \<Rightarrow> os_world" where
  "deliver_sigterm p w = (case procs w p of
       None \<Rightarrow> w
     | Some pr \<Rightarrow> (case state pr of
           Alive \<Rightarrow> (case on_sigterm (prog pr) of
                None \<Rightarrow> w
              | Some (d, c) \<Rightarrow> set_state p (Terminating d c) w)
         | _ \<Rightarrow> w))"

definition terminate :: "os_world \<Rightarrow> nat \<Rightarrow> py_exception option \<times> os_world" where
  "terminate w p = (case returncode w p of
       Some _ \<Rightarrow> (None, w)
     | None \<Rightarrow> (case signal_denied w p of
           Some e \<Rightarrow> (Some (OSError e), logged (SigTerm p) w)
         | None \<Rightarrow> (None, logged (SigTerm p) (deliver_sigterm p w))))"

definition kill :: "os_world \<Rightarrow> nat \<Rightarrow> py_exception option \<times> os_world" where
  "kill w p = (case returncode w p of
       Some _ \<Rightarrow> (None, w)
     | None \<Rightarrow> (case signal_denied w p of
           Some e \<Rightarrow> (Some (OSError e), logged (SigKill p) w)
         | None \<Rightarrow> (None, logged (SigKill p) (set_state p (Exited (- 9)) w))))"

text \<open>
  \<^verbatim>\<open>process.wait(timeout=t)\<close>: \<open>True\<close> when the process has exited by the deadline,
  \<open>False\<close> for \<^verbatim>\<open>TimeoutExpired\<close>. A process that is alive and was not signalled does
  not exit by itself during the call.
\<close>

definition wait_timeout :: "os_world \<Rightarrow> nat \<Rightarrow> nat \<Rightarrow> bool \<times> os_world" where
  "wait_timeout w p t = (case procs w p of
       None \<Rightarrow> (True, logged (Wait p (Some t)) w)
     | Some pr \<Rightarrow> (case state pr of
           Exited c \<Rightarrow> (True, logged (Wait p (Some t)) w)
         | Terminating d c \<Rightarrow>
             (if d \<le> t
              then (True, logged (Wait p (Some t))
                            (set_state p (Exited c) (w\<lparr>clock := clock w + int d\<rparr>)))
              else (False, logged (Wait p (Some t))
                            (set_state p (Terminating (d - t) c) (w\<lparr>clock := clock w + int t\<rparr>))))
         | Alive \<Rightarrow> (False, logged (Wait p (Some t)) (w\<lparr>clock := clock w + int t\<rparr>))))"

text \<open>
  \<^verbatim>\<open>process.wait()\<close> without a timeout: \<open>None\<close> when the call never returns (the
  process is alive and nothing makes it exit).
\<close>

definition wait :: "os_world \<Rightarrow> nat \<Rightarrow> os_world option" where
  "wait w p = (case procs w p of
       None \<Rightarrow> Some (logged (Wait p None) w)
     | Some pr \<Rightarrow> (case state pr of
           Exited c \<Rightarrow> Some (logged (Wait p None) w)
         | Terminating d c \<Rightarrow>
             Some (logged (Wait p None) (set_state p (Exited c) (w\<lparr>clock := clock w + int d\<rparr>)))
         | Alive \<Rightarrow> None))"

text \<open>
  \<^verbatim>\<open>subprocess.Popen(cmd, ...)\<close>: every element of the argument list must be a string
  (\<^verbatim>\<open>TypeError\<close> otherwise); the OS then either fails with an error text or creates
  a process under the next free pid.
\<close>

fun as_strings :: "jvalue list \<Rightarrow> string list option" where
  "as_strings [] = Some []"
| "as_strings (JStr s # vs) = map_option ((#) s) (as_strings vs)"
| "as_strings (_ # vs) = None"

definition Popen :: "os_world \<Rightarrow> jvalue list \<Rightarrow> py_exception + (nat \<times> os_world)" where
  "Popen w cmd = (case as_strings cmd of
       None \<Rightarrow> Inl TypeError
     | Some args \<Rightarrow> (case programs w args of
           Inl e \<Rightarrow> Inl (OSError e)
         | Inr pg \<Rightarrow>
             Inr (next_pid w,
                  logged (Spawn args)
                    (w\<lparr>procs := (procs w)(next_pid w \<mapsto> \<lparr>state = Alive, argv = args, prog = pg\<rparr>),
                       next_pid := Suc (next_pid w)\<rparr>))))"

text \<open>A process exiting on its own or being killed from outside the manager.\<close>

definition os_exit :: "nat \<Rightarrow> int \<Rightarrow> os_world \<Rightarrow> os_world" where
  "os_exit p c w = (case returncode w p of Some _ \<Rightarrow> w | None \<Rightarrow> set_state p (Exited c) w)"

section \<open>\<^verbatim>\<open>ServerManager\<close>\<close>

record process_info =
  process :: nat
  started_at :: int
  start_time :: int
  info_config :: server_config

record ServerManager =
  config :: app_config
  active_servers :: "string \<rightharpoonup> process_info"
  current_server :: "string option"

datatype error =
    AlreadyRunning string
  | NotInConfiguration string
  | UnknownServer string
  | FailedToStart py_exception
  | NotRunning string
  | FailedToStop py_exception
  | NotFound string
  | SwitchStartFailed string error

datatype success = Started string | Stopped string | Switched string

datatype status =
    StatusRunning nat int int
  | StatusEnded "int option" int
  | StatusNotRunning

text \<open>\<^verbatim>\<open>_load_config\<close>: \<open>None\<close> stands for a file that cannot be opened or parsed.\<close>

definition load_config :: "app_config option \<Rightarrow> app_config" where
  "load_config file = (case file of
       Some c \<Rightarrow> c
     | None \<Rightarrow> \<lparr>servers = Map.empty, default_server = Some (Some ''SecureAudit'')\<rparr>)"

text \<open>\<^verbatim>\<open>__init__\<close>.\<close>

definition init :: "app_config option \<Rightarrow> ServerManager" where
  "init file = (let c = load_config file in
     \<lparr>config = c,
      active_servers = Map.empty,
      current_server = (case default_server c of None \<Rightarrow> Some ''SecureAudit'' | Some d \<Rightarrow> d)\<rparr>)"

definition get_server_config :: "ServerManager \<Rightarrow> string \<Rightarrow> server_config option" where
  "get_server_config m server_name = servers (config m) server_name"

definition get_server_status ::
  "os_world \<Rightarrow> ServerManager \<Rightarrow> string \<Rightarrow> status \<times> os_world \<times> ServerManager" where
  "get_server_status w m server_name = (case active_servers m server_name of
       None \<Rightarrow> (StatusNotRunning, w, m)
     | Some info \<Rightarrow> (case poll w (process info) of
           (None, w1) \<Rightarrow>
             (StatusRunning (process info) (started_at info) (clock w1 - start_time info), w1, m)
         | (Some _, w1) \<Rightarrow>
             (let m1 = m\<lparr>active_servers := (active_servers m)(server_name := None)\<rparr>;
                  (code, w2) = poll w1 (process info)
              in (StatusEnded code (clock w2), w2, m1))))"

text \<open>
  The table \<^verbatim>\<open>server_commands\<close> that \<^verbatim>\<open>start_server\<close> builds on every call. The dictionary
  display is evaluated entry by entry, so \<^verbatim>\<open>config['host']\<close> and \<^verbatim>\<open>config['port']\<close> are read
  (and raise \<^verbatim>\<open>KeyError\<close> when missing) whatever the server name is.
\<close>

definition server_commands :: "server_config \<Rightarrow> py_exception + (string \<times> jvalue list) list" where
  "server_commands cfg = (case map_of cfg ''host'' of
       None \<Rightarrow> Inl (KeyError ''host'')
     | Some h \<Rightarrow> (case map_of cfg ''port'' of
           None \<Rightarrow> Inl (KeyError ''port'')
         | Some p \<Rightarrow> Inr
             [(''SecureAudit'',
                 [JStr ''python3'', JStr ''servers/secure_audit_server.py'',
                  JStr ''--transport'', JStr ''stdio'']),
              (''SampleServer'',
                 [JStr ''python3'', JStr ''servers/sample_server.py'',
                  JStr ''--transport'', JStr ''stdio'']),
              (''HttpAuditServer'',
                 [JStr ''python3'', JStr ''servers/http_audit_server.py'',
                  JStr ''--transport'', JStr ''http'',
                  JStr ''--host'', h, JStr ''--port'', JStr (py_str p)]),
              (''SSEAuditServer'',
                 [JStr ''python3'', JStr ''servers/sse_audit_server.py'',
                  JStr ''--transport'', JStr ''sse'',
                  JStr ''--host'', h, JStr ''--port'', JStr (py_str p)])]))"

definition is_running :: "status \<Rightarrow> bool" where
  "is_running st = (case st of StatusRunning _ _ _ \<Rightarrow> True | _ \<Rightarrow> False)"

text \<open>
  \<^verbatim>\<open>start_server\<close>. The first test consults \<^verbatim>\<open>get_server_status\<close> only for a name that
  is a key of \<^verbatim>\<open>active_servers\<close>; \<^verbatim>\<open>if not config\<close> holds for a missing entry and for an
  empty one; \<^verbatim>\<open>if not cmd\<close> holds for a name outside the table.
\<close>

definition spawn_server ::
  "os_world \<Rightarrow> ServerManager \<Rightarrow> string \<Rightarrow> server_config
     \<Rightarrow> (error + success) \<times> os_world \<times> ServerManager" where
  "spawn_server w m server_name cfg = (case server_commands cfg of
       Inl e \<Rightarrow> (Inl (FailedToStart e), w, m)
     | Inr table \<Rightarrow> (case map_of table server_name of
           None \<Rightarrow> (Inl (UnknownServer server_name), w, m)
         | Some cmd \<Rightarrow>
             (if cmd = [] then (Inl (UnknownServer server_name), w, m)
              else (case Popen w cmd of
                  Inl e \<Rightarrow> (Inl (FailedToStart e), w, m)
                | Inr (p, w1) \<Rightarrow>
                    (Inr (Started server_name), w1,
                     m\<lparr>active_servers := (active_servers m)(server_name \<mapsto>
                          \<lparr>process = p, started_at = clock w1, start_time = clock w1,
                           info_config = cfg\<rparr>)\<rparr>)))))"

definition start_server ::
  "os_world \<Rightarrow> ServerManager \<Rightarrow> string \<Rightarrow> (error + success) \<times> os_world \<times> ServerManager" where
  "start_server w m server_name =
     (let (running, w1, m1) =
            (case active_servers m server_name of
               None \<Rightarrow> (False, w, m)
             | Some _ \<Rightarrow> (case get_server_status w m server_name of
                           (st, w', m') \<Rightarrow> (is_running st, w', m')))
      in if running then (Inl (AlreadyRunning server_name), w1, m1)
         else (case get_server_config m1 server_name of
             None \<Rightarrow> (Inl (NotInConfiguration server_name), w1, m1)
           | Some cfg \<Rightarrow>
               (if cfg = [] then (Inl (NotInConfiguration server_name), w1, m1)
                else spawn_server w1 m1 server_name cfg)))"

text \<open>
  \<^verbatim>\<open>stop_server\<close>. The result is \<open>None\<close> when the call does not return, which can only
  come from the \<^verbatim>\<open>process.wait()\<close> without a timeout.
\<close>

definition unregister :: "string \<Rightarrow> ServerManager \<Rightarrow> ServerManager" where
  "unregister server_name m = m\<lparr>active_servers := (active_servers m)(server_name := None)\<rparr>"

definition stop_server ::
  "os_world \<Rightarrow> ServerManager \<Rightarrow> string
     \<Rightarrow> ((error + success) \<times> os_world \<times> ServerManager) option" where
  "stop_server w m server_name = (case active_servers m server_name of
       None \<Rightarrow> Some (Inl (NotRunning server_name), w, m)
     | Some info \<Rightarrow> (case terminate w (process info) of
           (Some e, w1) \<Rightarrow> Some (Inl (FailedToStop e), w1, m)
         | (None, w1) \<Rightarrow> (case wait_timeout w1 (process info) 5 of
               (True, w2) \<Rightarrow> Some (Inr (Stopped server_name), w2, unregister server_name m)
             | (False, w2) \<Rightarrow> (case kill w2 (process info) of
                   (Some e, w3) \<Rightarrow> Some (Inl (FailedToStop e), w3, m)
                 | (None, w3) \<Rightarrow> (case wait w3 (process info) of
                       None \<Rightarrow> None
                     | Some w4 \<Rightarrow>
                         Some (Inr (Stopped server_name), w4, unregister server_name m))))))"

text \<open>\<^verbatim>\<open>switch_server\<close>.\<close>

definition switch_server ::
  "os_world \<Rightarrow> ServerManager \<Rightarrow> string \<Rightarrow> (error + success) \<times> os_world \<times> ServerManager" where
  "switch_server w m server_name = (case servers (config m) server_name of
       None \<Rightarrow> (Inl (NotFound server_name), w, m)
     | Some _ \<Rightarrow> (case active_servers m server_name of
           Some _ \<Rightarrow> (Inr (Switched server_name), w, m\<lparr>current_server := Some server_name\<rparr>)
         | None \<Rightarrow> (case start_server w m server_name of
               (Inl e, w1, m1) \<Rightarrow> (Inl (SwitchStartFailed server_name e), w1, m1)
             | (Inr _, w1, m1) \<Rightarrow>
                 (Inr (Switched server_name), w1, m1\<lparr>current_server := Some server_name\<rparr>))))"

section \<open>\<^verbatim>\<open>MCPClient.call_tool\<close>\<close>

text \<open>
  The dictionaries \<^verbatim>\<open>call_tool\<close> returns: the success dictionary (tool, result, args,
  timestamp), the error for a current server that is not a key of
  \<^verbatim>\<open>active_servers\<close>, the error for a helper script with a non-zero return code (its
  standard error and the tool), and the error of the \<^verbatim>\<open>except Exception\<close> branch.
\<close>

datatype tool_response =
    ToolSuccess string string "(string \<times> jvalue) list" int
  | ServerNotRunning "string option"
  | ExecutionFailed string string
  | CallFailed py_exception string

definition in_active :: "ServerManager \<Rightarrow> string option \<Rightarrow> bool" where
  "in_active m k = (case k of None \<Rightarrow> False | Some n \<Rightarrow> active_servers m n \<noteq> None)"

definition call_tool ::
  "os_world \<Rightarrow> ServerManager \<Rightarrow> string \<Rightarrow> (string \<times> jvalue) list \<Rightarrow> tool_response \<times> os_world" where
  "call_tool w m tool_name kwargs =
     (let server_name = current_server m
      in if \<not> in_active m server_name then (ServerNotRunning server_name, w)
         else (case helper w tool_name kwargs of
             Raised e \<Rightarrow> (CallFailed e tool_name, logged (RunHelper tool_name) w)
           | Completed rc err \<Rightarrow>
               (if rc = 0
                then (ToolSuccess tool_name (''Tool '' @ tool_name @ '' called successfully'')
                        kwargs (clock w),
                      logged (RunHelper tool_name) w)
                else (ExecutionFailed err tool_name, logged (RunHelper tool_name) w))))"

section \<open>Notions used to state the properties\<close>

text \<open>
  Whether a process, once SIGTERM has been sent to it, has exited \<open>t\<close> seconds later:
  it had exited before, or it is terminating with at most \<open>t\<close> seconds left, or it is
  alive and its program reacts to SIGTERM within \<open>t\<close> seconds.
\<close>

definition exits_in_grace :: "os_world \<Rightarrow> nat \<Rightarrow> nat \<Rightarrow> bool" where
  "exits_in_grace w p t = (case procs w p of
       None \<Rightarrow> True
     | Some pr \<Rightarrow> (case state pr of
           Exited c \<Rightarrow> True
         | Terminating d c \<Rightarrow> d \<le> t
         | Alive \<Rightarrow> (case on_sigterm (prog pr) of None \<Rightarrow> False | Some (d, c) \<Rightarrow> d \<le> t)))"

text \<open>The OS calls \<^verbatim>\<open>stop_server\<close> makes for a pid it is allowed to signal.\<close>

definition stop_calls :: "os_world \<Rightarrow> nat \<Rightarrow> os_call list" where
  "stop_calls w p =
     (if returncode w p = None then [SigTerm p] else []) @
     (if exits_in_grace w p 5 then [Wait p (Some 5)]
      else [Wait p (Some 5), SigKill p, Wait p None])"




definition registered :: "os_world \<Rightarrow> ServerManager \<Rightarrow> string \<Rightarrow> server_config \<Rightarrow> ServerManager" where
  "registered w m server_name cfg =
     m\<lparr>active_servers := (active_servers m)(server_name \<mapsto>
          \<lparr>process = next_pid w, started_at = clock w, start_time = clock w,
           info_config = cfg\<rparr>)\<rparr>"

text \<open>
  What the active worker itself would answer to the request: the reply of the
  program behind the process registered for the current server.
\<close>

definition worker_reply ::
  "os_world \<Rightarrow> ServerManager \<Rightarrow> string \<Rightarrow> (string \<times> jvalue) list \<Rightarrow> string option" where
  "worker_reply w m tool_name kwargs = (case current_server m of
       None \<Rightarrow> None
     | Some n \<Rightarrow> (case active_servers m n of
           None \<Rightarrow> None
         | Some info \<Rightarrow> (case procs w (process info) of
               None \<Rightarrow> None
             | Some pr \<Rightarrow> Some (tool_reply (prog pr) tool_name kwargs))))"

section \<open>A concrete installation\<close>

definition cfg_secure :: server_config where
  "cfg_secure =
     [(''transport'', JStr ''stdio''), (''host'', JStr ''127.0.0.1''), (''port'', JInt 8000)]"

definition sample_file :: app_config where
  "sample_file =
     \<lparr>servers = [''SecureAudit'' \<mapsto> cfg_secure, ''SampleServer'' \<mapsto> cfg_secure,
                 ''Reporting'' \<mapsto> cfg_secure],
      default_server = None\<rparr>"

definition echo_reply :: "string \<Rightarrow> (string \<times> jvalue) list \<Rightarrow> string" where
  "echo_reply tool_name kwargs =
     (case map_of kwargs ''message'' of Some (JStr s) \<Rightarrow> s | _ \<Rightarrow> [])"

definition echo_program :: program where
  "echo_program = \<lparr>on_sigterm = Some (1, - 15), tool_reply = echo_reply\<rparr>"

definition stubborn_program :: program where
  "stubborn_program = \<lparr>on_sigterm = None, tool_reply = echo_reply\<rparr>"

definition world0 :: os_world where
  "world0 =
     \<lparr>procs = Map.empty, next_pid = 100, programs = (\<lambda>args. Inr echo_program),
      signal_denied = (\<lambda>p. None), clock = 0,
      helper = (\<lambda>t a. Completed 0 []), calls = []\<rparr>"

definition manager0 :: ServerManager where
  "manager0 = init (Some sample_file)"

definition secure_argv :: "string list" where
  "secure_argv = [''python3'', ''servers/secure_audit_server.py'', ''--transport'', ''stdio'']"

definition info1 :: process_info where
  "info1 = \<lparr>process = 100, started_at = 0, start_time = 0, info_config = cfg_secure\<rparr>"

text \<open>The state after \<^verbatim>\<open>start_server('SecureAudit')\<close> in the initial state.\<close>

definition world1 :: os_world where
  "world1 =
     world0\<lparr>procs := [100 \<mapsto> \<lparr>state = Alive, argv = secure_argv, prog = echo_program\<rparr>],
            next_pid := 101, calls := [Spawn secure_argv]\<rparr>"

definition manager1 :: ServerManager where
  "manager1 = manager0\<lparr>active_servers := [''SecureAudit'' \<mapsto> info1]\<rparr>"

text \<open>The same, after the worker has been killed from outside with return code 1.\<close>

definition world_dead :: os_world where
  "world_dead =
     world1\<lparr>procs := [100 \<mapsto> \<lparr>state = Exited 1, argv = secure_argv, prog = echo_program\<rparr>]\<rparr>"

text \<open>The same, with a worker that ignores SIGTERM.\<close>

definition world_stubborn :: os_world where
  "world_stubborn =
     world1\<lparr>procs := [100 \<mapsto> \<lparr>state = Alive, argv = secure_argv, prog = stubborn_program\<rparr>]\<rparr>"


text \<open>
  The states after \<^verbatim>\<open>stop_server('SecureAudit')\<close>: of the worker that exits on
  SIGTERM, and of the one that ignores it.
\<close>

definition world2 :: os_world where
  "world2 =
     world1\<lparr>procs := [100 \<mapsto> \<lparr>state = Exited (- 15), argv = secure_argv, prog = echo_program\<rparr>],
            clock := 1,
            calls := [Spawn secure_argv, SigTerm 100, Wait 100 (Some 5)]\<rparr>"

definition manager2 :: ServerManager where
  "manager2 = manager0"

definition world3 :: os_world where
  "world3 =
     world_stubborn\<lparr>procs := [100 \<mapsto> \<lparr>state = Exited (- 9), argv = secure_argv,
                                       prog = stubborn_program\<rparr>],
            clock := 5,
            calls := [Spawn secure_argv, SigTerm 100, Wait 100 (Some 5), SigKill 100,
                      Wait 100 None]\<rparr>"

text \<open>The state after \<^verbatim>\<open>start_server('SampleServer')\<close> with SecureAudit running.\<close>

definition sample_argv :: "string list" where
  "sample_argv = [''python3'', ''servers/sample_server.py'', ''--transport'', ''stdio'']"

definition world4 :: os_world where
  "world4 =
     world1\<lparr>procs := [100 \<mapsto> \<lparr>state = Alive, argv = secure_argv, prog = echo_program\<rparr>,
                       101 \<mapsto> \<lparr>state = Alive, argv = sample_argv, prog = echo_program\<rparr>],
            next_pid := 102, calls := [Spawn secure_argv, Spawn sample_argv]\<rparr>"

definition manager4 :: ServerManager where
  "manager4 =
     manager1\<lparr>active_servers := [''SecureAudit'' \<mapsto> info1,
                 ''SampleServer'' \<mapsto> \<lparr>process = 101, started_at = 0, start_time = 0,
                                        info_config = cfg_secure\<rparr>]\<rparr>"

text \<open>The manager of an installation whose file has \<^verbatim>\<open>"default_server": null\<close>.\<close>

definition manager_null :: ServerManager where
  "manager_null = init (Some (sample_file\<lparr>default_server := Some None\<rparr>))"

section \<open>Properties\<close>

subsection \<open>The OS trace and the concrete installation\<close>

lemma logged_fields [simp]:
  "procs (logged c w) = procs w"
  "next_pid (logged c w) = next_pid w"
  "programs (logged c w) = programs w"
  "signal_denied (logged c w) = signal_denied w"
  "clock (logged c w) = clock w"
  "helper (logged c w) = helper w"
  "calls (logged c w) = calls w @ [c]"
  by (simp_all add: logged_def)

lemma returncode_logged [simp]: "returncode (logged c w) p = returncode w p"
  by (simp add: returncode_def)

lemma started: "start_server world0 manager0 ''SecureAudit'' = (Inr (Started ''SecureAudit''), world1, manager1)"
  by (simp add: start_server_def spawn_server_def server_commands_def Popen_def get_server_config_def
      world0_def manager0_def world1_def manager1_def info1_def init_def load_config_def sample_file_def
      cfg_secure_def secure_argv_def logged_def Let_def)

lemma dead: "os_exit 100 1 world1 = world_dead"
  by (simp add: os_exit_def returncode_def set_state_def world1_def world_dead_def world0_def)

subsection \<open>Status queries\<close>

lemma get_server_status_absent:
  "active_servers m name = None \<Longrightarrow> get_server_status w m name = (StatusNotRunning, w, m)"
  by (simp add: get_server_status_def)

lemma get_server_status_alive:
  "active_servers m name = Some info \<Longrightarrow> returncode w (process info) = None \<Longrightarrow>
   get_server_status w m name =
     (StatusRunning (process info) (started_at info) (clock w - start_time info),
      logged (Poll (process info)) w, m)"
  by (simp add: get_server_status_def poll_def)

lemma get_server_status_exited:
  "active_servers m name = Some info \<Longrightarrow> returncode w (process info) = Some c \<Longrightarrow>
   get_server_status w m name =
     (StatusEnded (Some c) (clock w),
      logged (Poll (process info)) (logged (Poll (process info)) w), unregister name m)"
  by (simp add: get_server_status_def poll_def unregister_def)

text \<open>
  Claim C7. For a name that is a key of the running map, \<^verbatim>\<open>get_server_status\<close> asks the
  OS for the return code at the time of the call. When the process has exited, the
  entry is removed from the running map by the query itself and the answer is
  ``not running'' with the exit code the OS holds; no stop is involved (the only OS
  calls are the two polls). When the process is alive, the answer is ``running'' and
  the map is unchanged.
\<close>

theorem get_server_status_lazy_reap:
  assumes "active_servers m name = Some info"
  shows "get_server_status w m name =
     (case returncode w (process info) of
        Some c \<Rightarrow> (StatusEnded (Some c) (clock w),
                   w\<lparr>calls := calls w @ [Poll (process info), Poll (process info)]\<rparr>,
                   m\<lparr>active_servers := (active_servers m)(name := None)\<rparr>)
      | None \<Rightarrow> (StatusRunning (process info) (started_at info) (clock w - start_time info),
                 w\<lparr>calls := calls w @ [Poll (process info)]\<rparr>, m))"
  using assms
  by (cases "returncode w (process info)")
     (simp_all add: get_server_status_alive get_server_status_exited logged_def unregister_def)

theorem get_server_status_lazy_reap_witness:
  "active_servers manager1 ''SecureAudit'' = Some info1 \<and>
   returncode world_dead (process info1) = Some 1 \<and>
   fst (get_server_status world_dead manager1 ''SecureAudit'') = StatusEnded (Some 1) 0 \<and>
   active_servers (snd (snd (get_server_status world_dead manager1 ''SecureAudit''))) ''SecureAudit'' = None"
proof -
  have a: "active_servers manager1 ''SecureAudit'' = Some info1"
    by (simp add: manager1_def)
  have r: "returncode world_dead (process info1) = Some 1"
    by (simp add: returncode_def world_dead_def info1_def)
  have c: "clock world_dead = 0"
    by (simp add: world_dead_def world1_def world0_def)
  show ?thesis
    using a r c get_server_status_lazy_reap [OF a, of world_dead] by simp
qed

subsection \<open>Starting a server\<close>

lemma start_server_running:
  assumes "active_servers m name = Some info" and "returncode w (process info) = None"
  shows "start_server w m name = (Inl (AlreadyRunning name), logged (Poll (process info)) w, m)"
  using assms by (simp add: start_server_def get_server_status_alive is_running_def)

lemma as_strings_map_JStr [simp]: "as_strings (map JStr xs) = Some xs"
  by (induction xs) simp_all




lemma start_server_absent:
  assumes "active_servers m name = None"
  shows "start_server w m name = (case servers (config m) name of
       None \<Rightarrow> (Inl (NotInConfiguration name), w, m)
     | Some cfg \<Rightarrow> (if cfg = [] then (Inl (NotInConfiguration name), w, m)
                    else spawn_server w m name cfg))"
  using assms by (simp add: start_server_def get_server_config_def split: option.splits)

text \<open>
  Claim C10. For a configured name that is still a key of the running map while its
  process has already exited, \<^verbatim>\<open>switch_server\<close> succeeds and makes it the current
  server; the world is unchanged (no poll, no spawn) and the stale entry stays.
\<close>

theorem switch_server_membership_only:
  assumes "servers (config m) name = Some cfg"
    and "active_servers m name = Some info"
    and "returncode w (process info) = Some c"
  shows "switch_server w m name = (Inr (Switched name), w, m\<lparr>current_server := Some name\<rparr>)"
  using assms by (simp add: switch_server_def)


lemma spawn_server_fails:
  "spawn_server w m name cfg = (Inl e, w1, m1) \<Longrightarrow> w1 = w \<and> m1 = m"
  by (auto simp: spawn_server_def split: sum.splits option.splits if_splits)

lemma spawn_server_succeeds:
  assumes "spawn_server w m name cfg = (Inr s, w1, m1)"
  shows "s = Started name \<and> m1 = registered w m name cfg \<and>
         procs w1 (next_pid w) \<noteq> None \<and> returncode w1 (next_pid w) = None \<and>
         next_pid w1 = Suc (next_pid w)"
  using assms
  by (auto simp: spawn_server_def Popen_def registered_def returncode_def
           split: sum.splits option.splits if_splits)

lemma start_server_fails_absent:
  assumes "active_servers m name = None" and "start_server w m name = (Inl e, w1, m1)"
  shows "w1 = w \<and> m1 = m"
  using assms spawn_server_fails [of w m name _ e w1 m1]
  by (auto simp: start_server_absent split: option.splits if_splits)

lemma registered_fields [simp]:
  "config (registered w m name cfg) = config m"
  "current_server (registered w m name cfg) = current_server m"
  "active_servers (registered w m name cfg) name =
     Some \<lparr>process = next_pid w, started_at = clock w, start_time = clock w, info_config = cfg\<rparr>"
  by (simp_all add: registered_def)

lemma unregister_fields [simp]:
  "config (unregister name m) = config m"
  "current_server (unregister name m) = current_server m"
  "active_servers (unregister name m) name = None"
  "n \<noteq> name \<Longrightarrow> active_servers (unregister name m) n = active_servers m n"
  by (simp_all add: unregister_def)

lemma get_server_status_pointer:
  "current_server (snd (snd (get_server_status w m name))) = current_server m \<and>
   config (snd (snd (get_server_status w m name))) = config m"
  by (simp add: get_server_status_def poll_def split: option.splits prod.splits)

lemma spawn_server_pointer:
  "current_server (snd (snd (spawn_server w m name cfg))) = current_server m"
  by (simp add: spawn_server_def split: sum.splits option.splits prod.splits)

lemma start_server_pointer:
  "current_server (snd (snd (start_server w m name))) = current_server m"
proof (cases "active_servers m name")
  case None
  then show ?thesis
    by (simp add: start_server_absent spawn_server_pointer split: option.splits)
next
  case (Some info)
  show ?thesis
  proof (cases "returncode w (process info)")
    case None
    with Some show ?thesis by (simp add: start_server_running)
  next
    case (Some c)
    with \<open>active_servers m name = Some info\<close> show ?thesis
      by (simp add: start_server_def get_server_status_exited is_running_def
            get_server_config_def spawn_server_pointer split: option.splits)
  qed
qed

lemma start_server_succeeds:
  assumes "start_server w m name = (Inr s, w1, m1)"
  shows "s = Started name \<and> (\<exists>info. active_servers m1 name = Some info \<and>
           process info = next_pid w \<and> returncode w1 (process info) = None)"
proof (cases "active_servers m name")
  case None
  with assms obtain cfg where "spawn_server w m name cfg = (Inr s, w1, m1)"
    by (auto simp: start_server_absent split: option.splits if_splits)
  from spawn_server_succeeds [OF this] show ?thesis by simp
next
  case (Some info)
  show ?thesis
  proof (cases "returncode w (process info)")
    case None
    with Some assms show ?thesis by (simp add: start_server_running)
  next
    case (Some c)
    with \<open>active_servers m name = Some info\<close> assms
    obtain cfg where "spawn_server (logged (Poll (process info)) (logged (Poll (process info)) w))
        (unregister name m) name cfg = (Inr s, w1, m1)"
      by (auto simp: start_server_def get_server_status_exited is_running_def
            get_server_config_def split: option.splits if_splits)
    from spawn_server_succeeds [OF this] show ?thesis by simp
  qed
qed

text \<open>
  Claim C6. When the name is a key of the running map and its process is alive,
  \<^verbatim>\<open>start_server\<close> fails with ``already running'': the manager (the entry and its pid)
  is unchanged and the OS is only polled, nothing is spawned. In particular a second
  \<^verbatim>\<open>start_server\<close> right after a successful one fails this way. The running map is a
  map, so it holds at most one entry per name.
\<close>

theorem start_server_already_running:
  "(\<forall>info. active_servers m name = Some info \<longrightarrow> returncode w (process info) = None \<longrightarrow>
      start_server w m name =
        (Inl (AlreadyRunning name), w\<lparr>calls := calls w @ [Poll (process info)]\<rparr>, m)) \<and>
   (\<forall>s w1 m1. start_server w m name = (Inr s, w1, m1) \<longrightarrow>
      start_server w1 m1 name =
        (Inl (AlreadyRunning name), w1\<lparr>calls := calls w1 @ [Poll (next_pid w)]\<rparr>, m1))"
proof (intro conjI allI impI)
  fix info
  assume "active_servers m name = Some info" and "returncode w (process info) = None"
  then show "start_server w m name =
      (Inl (AlreadyRunning name), w\<lparr>calls := calls w @ [Poll (process info)]\<rparr>, m)"
    by (simp add: start_server_running logged_def)
next
  fix s w1 m1
  assume "start_server w m name = (Inr s, w1, m1)"
  from start_server_succeeds [OF this]
  obtain info where "active_servers m1 name = Some info" and "process info = next_pid w"
    and "returncode w1 (process info) = None"
    by blast
  then show "start_server w1 m1 name =
      (Inl (AlreadyRunning name), w1\<lparr>calls := calls w1 @ [Poll (next_pid w)]\<rparr>, m1)"
    using start_server_running [of m1 name info w1] by (simp add: logged_def)
qed

theorem start_server_already_running_witness:
  "start_server world1 manager1 ''SecureAudit'' =
     (Inl (AlreadyRunning ''SecureAudit''), world1\<lparr>calls := calls world1 @ [Poll 100]\<rparr>, manager1) \<and>
   start_server world0 manager0 ''SecureAudit'' = (Inr (Started ''SecureAudit''), world1, manager1) \<and>
   next_pid world0 = 100"
proof -
  have a: "active_servers manager1 ''SecureAudit'' = Some info1"
    by (simp add: manager1_def)
  have r: "returncode world1 (process info1) = None"
    by (simp add: returncode_def world1_def info1_def)
  have p: "process info1 = 100"
    by (simp add: info1_def)
  have n: "next_pid world0 = 100"
    by (simp add: world0_def)
  show ?thesis
    using a r p n started start_server_already_running [of manager1 "''SecureAudit''" world1]
    by simp
qed

theorem switch_server_membership_only_witness:
  "servers (config manager1) ''SecureAudit'' = Some cfg_secure \<and>
   active_servers manager1 ''SecureAudit'' = Some info1 \<and>
   returncode world_dead (process info1) = Some 1 \<and>
   switch_server world_dead manager1 ''SecureAudit'' =
     (Inr (Switched ''SecureAudit''), world_dead, manager1\<lparr>current_server := Some ''SecureAudit''\<rparr>)"
proof -
  have s: "servers (config manager1) ''SecureAudit'' = Some cfg_secure"
    by (simp add: manager1_def manager0_def init_def load_config_def sample_file_def)
  have a: "active_servers manager1 ''SecureAudit'' = Some info1"
    by (simp add: manager1_def)
  have r: "returncode world_dead (process info1) = Some 1"
    by (simp add: returncode_def world_dead_def info1_def)
  show ?thesis
    using s a r switch_server_membership_only [OF s a r] by simp
qed

subsection \<open>Stopping a server\<close>

lemma stop_server_absent:
  "active_servers m name = None \<Longrightarrow> stop_server w m name = Some (Inl (NotRunning name), w, m)"
  by (simp add: stop_server_def)

lemma stop_server_denied:
  assumes "active_servers m name = Some info"
    and "returncode w (process info) = None"
    and "signal_denied w (process info) = Some e"
  shows "stop_server w m name =
     Some (Inl (FailedToStop (OSError e)), logged (SigTerm (process info)) w, m)"
  using assms by (simp add: stop_server_def terminate_def)

lemma stop_server_exited:
  assumes "active_servers m name = Some info"
    and "returncode w (process info) = Some c"
  shows "stop_server w m name =
     Some (Inr (Stopped name), logged (Wait (process info) (Some 5)) w, unregister name m)"
  using assms
  by (auto simp: stop_server_def terminate_def wait_timeout_def returncode_def
           split: option.splits proc_state.splits)

lemma stop_calls_exited:
  "returncode w p = Some c \<Longrightarrow> stop_calls w p = [Wait p (Some 5)]"
  by (auto simp: stop_calls_def exits_in_grace_def returncode_def
           split: option.splits proc_state.splits)

lemma stop_server_alive:
  assumes "active_servers m name = Some info"
    and "returncode w (process info) = None"
    and "signal_denied w (process info) = None"
  shows "\<exists>w'. stop_server w m name = Some (Inr (Stopped name), w', unregister name m) \<and>
           returncode w' (process info) \<noteq> None \<and>
           calls w' = calls w @ stop_calls w (process info)"
proof -
  obtain pr where pr: "procs w (process info) = Some pr"
    using assms(2) by (auto simp: returncode_def split: option.splits)
  show ?thesis
  proof (cases "state pr")
    case Alive
    show ?thesis
    proof (cases "on_sigterm (prog pr)")
      case None
      with Alive pr assms show ?thesis
        by (simp add: stop_server_def terminate_def deliver_sigterm_def wait_timeout_def kill_def
              wait_def set_state_def returncode_def stop_calls_def exits_in_grace_def logged_def)
    next
      case (Some dc)
      obtain d c where dc: "dc = (d, c)" by (cases dc)
      with Some Alive pr assms show ?thesis
        by (simp add: stop_server_def terminate_def deliver_sigterm_def wait_timeout_def kill_def
              wait_def set_state_def returncode_def stop_calls_def exits_in_grace_def logged_def)
    qed
  next
    case (Terminating d c)
    with pr assms show ?thesis
      by (simp add: stop_server_def terminate_def deliver_sigterm_def wait_timeout_def kill_def
            wait_def set_state_def returncode_def stop_calls_def exits_in_grace_def logged_def)
  next
    case (Exited c)
    with pr assms(2) show ?thesis by (simp add: returncode_def)
  qed
qed

lemma stop_server_returns:
  "\<exists>r w' m'. stop_server w m name = Some (r, w', m')"
proof (cases "active_servers m name")
  case None
  then show ?thesis by (simp add: stop_server_absent)
next
  case (Some info)
  show ?thesis
  proof (cases "returncode w (process info)")
    case (Some c)
    with \<open>active_servers m name = Some info\<close> show ?thesis
      by (simp add: stop_server_exited)
  next
    case None
    show ?thesis
    proof (cases "signal_denied w (process info)")
      case (Some e)
      with None \<open>active_servers m name = Some info\<close> show ?thesis
        by (simp add: stop_server_denied)
    next
      case n: None
      from stop_server_alive [OF \<open>active_servers m name = Some info\<close> None n]
      show ?thesis by blast
    qed
  qed
qed

lemma stop_server_result:
  assumes "stop_server w m name = Some (r, w', m')"
  shows "(\<exists>e. r = Inl e \<and> m' = m) \<or> (r = Inr (Stopped name) \<and> m' = unregister name m)"
proof (cases "active_servers m name")
  case None
  with assms show ?thesis by (auto simp: stop_server_absent)
next
  case (Some info)
  show ?thesis
  proof (cases "returncode w (process info)")
    case (Some c)
    with \<open>active_servers m name = Some info\<close> assms show ?thesis
      by (auto simp: stop_server_exited)
  next
    case None
    show ?thesis
    proof (cases "signal_denied w (process info)")
      case (Some e)
      with None \<open>active_servers m name = Some info\<close> assms show ?thesis
        by (auto simp: stop_server_denied)
    next
      case n: None
      from stop_server_alive [OF \<open>active_servers m name = Some info\<close> None n] assms
      show ?thesis by auto
    qed
  qed
qed


lemma stop_server_pointer:
  assumes "stop_server w m name = Some (r, w', m')"
  shows "current_server m' = current_server m"
  using stop_server_result [OF assms] by auto

text \<open>
  Claim C8. \<^verbatim>\<open>stop_server\<close> fails with ``not running'' for a name that is not a key of
  the running map, leaving everything unchanged. For a key whose process the OS lets
  it signal (or that has exited already), it sends SIGTERM to a live process, waits
  up to 5 seconds, and only when the process has not exited by then sends SIGKILL
  and waits without a timeout; the call then returns success, the process has an
  exit code and the entry is removed. When the OS refuses the signal the call fails
  and the entry stays. In every case the call returns.
\<close>

theorem stop_server_two_phase:
  "(active_servers m name = None \<longrightarrow>
      stop_server w m name = Some (Inl (NotRunning name), w, m)) \<and>
   (\<forall>info. active_servers m name = Some info \<longrightarrow>
      (returncode w (process info) \<noteq> None \<or> signal_denied w (process info) = None) \<longrightarrow>
      (\<exists>w'. stop_server w m name =
              Some (Inr (Stopped name), w', m\<lparr>active_servers := (active_servers m)(name := None)\<rparr>) \<and>
            returncode w' (process info) \<noteq> None \<and>
            calls w' = calls w @ stop_calls w (process info))) \<and>
   (\<forall>info e. active_servers m name = Some info \<longrightarrow>
      returncode w (process info) = None \<longrightarrow> signal_denied w (process info) = Some e \<longrightarrow>
      stop_server w m name =
        Some (Inl (FailedToStop (OSError e)), w\<lparr>calls := calls w @ [SigTerm (process info)]\<rparr>, m)) \<and>
   (\<exists>r w' m'. stop_server w m name = Some (r, w', m'))"
proof (intro conjI allI impI)
  assume "active_servers m name = None"
  then show "stop_server w m name = Some (Inl (NotRunning name), w, m)"
    by (rule stop_server_absent)
next
  fix info
  assume a: "active_servers m name = Some info"
    and ok: "returncode w (process info) \<noteq> None \<or> signal_denied w (process info) = None"
  show "\<exists>w'. stop_server w m name =
              Some (Inr (Stopped name), w', m\<lparr>active_servers := (active_servers m)(name := None)\<rparr>) \<and>
            returncode w' (process info) \<noteq> None \<and>
            calls w' = calls w @ stop_calls w (process info)"
  proof (cases "returncode w (process info)")
    case (Some c)
    with a show ?thesis
      by (simp add: stop_server_exited stop_calls_exited unregister_def)
  next
    case None
    with ok have "signal_denied w (process info) = None" by simp
    from stop_server_alive [OF a None this] show ?thesis
      by (simp add: unregister_def)
  qed
next
  fix info e
  assume "active_servers m name = Some info" and "returncode w (process info) = None"
    and "signal_denied w (process info) = Some e"
  then show "stop_server w m name =
      Some (Inl (FailedToStop (OSError e)), w\<lparr>calls := calls w @ [SigTerm (process info)]\<rparr>, m)"
    by (simp add: stop_server_denied logged_def)
next
  show "\<exists>r w' m'. stop_server w m name = Some (r, w', m')"
    by (rule stop_server_returns)
qed

lemma stopped:
  "stop_server world1 manager1 ''SecureAudit'' = Some (Inr (Stopped ''SecureAudit''), world2, manager2)"
  by (simp add: stop_server_def terminate_def deliver_sigterm_def wait_timeout_def returncode_def
        set_state_def logged_def unregister_def world1_def world0_def world2_def manager1_def
        manager2_def manager0_def init_def info1_def echo_program_def Let_def)


lemma manager0_eq:
  "manager0 = \<lparr>config = sample_file, active_servers = Map.empty,
                current_server = Some ''SecureAudit''\<rparr>"
  by (simp add: manager0_def init_def load_config_def sample_file_def Let_def)

lemma stopped_stubborn:
  "stop_server world_stubborn manager1 ''SecureAudit'' =
     Some (Inr (Stopped ''SecureAudit''), world3, manager2)"
  by (simp add: stop_server_def terminate_def deliver_sigterm_def wait_timeout_def returncode_def
        kill_def wait_def set_state_def logged_def unregister_def world1_def world0_def
        world_stubborn_def world3_def manager1_def manager2_def manager0_eq info1_def
        stubborn_program_def)

theorem stop_server_two_phase_witness:
  "active_servers manager2 ''SecureAudit'' = None \<and>
   stop_server world2 manager2 ''SecureAudit'' =
     Some (Inl (NotRunning ''SecureAudit''), world2, manager2) \<and>
   active_servers manager1 ''SecureAudit'' = Some info1 \<and>
   signal_denied world_stubborn (process info1) = None \<and>
   stop_server world_stubborn manager1 ''SecureAudit'' =
     Some (Inr (Stopped ''SecureAudit''), world3, manager2) \<and>
   calls world3 = calls world_stubborn @ stop_calls world_stubborn (process info1) \<and>
   stop_calls world_stubborn (process info1) =
     [SigTerm 100, Wait 100 (Some 5), SigKill 100, Wait 100 None] \<and>
   stop_calls world1 (process info1) = [SigTerm 100, Wait 100 (Some 5)] \<and>
   returncode world3 (process info1) = Some (- 9)"
proof -
  have a2: "active_servers manager2 ''SecureAudit'' = None"
    by (simp add: manager2_def manager0_eq)
  have a1: "active_servers manager1 ''SecureAudit'' = Some info1"
    by (simp add: manager1_def)
  have d: "signal_denied world_stubborn (process info1) = None"
    by (simp add: world_stubborn_def world1_def world0_def)
  have c1: "stop_calls world_stubborn (process info1) =
      [SigTerm 100, Wait 100 (Some 5), SigKill 100, Wait 100 None]"
    by (simp add: stop_calls_def exits_in_grace_def returncode_def world_stubborn_def
          info1_def stubborn_program_def)
  have c2: "stop_calls world1 (process info1) = [SigTerm 100, Wait 100 (Some 5)]"
    by (simp add: stop_calls_def exits_in_grace_def returncode_def world1_def
          info1_def echo_program_def)
  have r: "returncode world3 (process info1) = Some (- 9)"
    by (simp add: returncode_def world3_def info1_def)
  have t1: "stop_server world2 manager2 ''SecureAudit'' =
      Some (Inl (NotRunning ''SecureAudit''), world2, manager2)"
    using a2 stop_server_two_phase [of manager2 "''SecureAudit''" world2] by simp
  have "\<exists>w'. stop_server world_stubborn manager1 ''SecureAudit'' =
          Some (Inr (Stopped ''SecureAudit''), w',
                manager1\<lparr>active_servers := (active_servers manager1)(''SecureAudit'' := None)\<rparr>) \<and>
        returncode w' (process info1) \<noteq> None \<and>
        calls w' = calls world_stubborn @ stop_calls world_stubborn (process info1)"
    using a1 d stop_server_two_phase [of manager1 "''SecureAudit''" world_stubborn] by simp
  then have t2: "calls world3 = calls world_stubborn @ stop_calls world_stubborn (process info1)"
    by (auto simp: stopped_stubborn)
  show ?thesis
    using a2 a1 d c1 c2 r t1 t2 stopped_stubborn by simp
qed

subsection \<open>Stopping the current server\<close>

lemma call_tool_not_active:
  "\<not> in_active m (current_server m) \<Longrightarrow>
   call_tool w m tool_name kwargs = (ServerNotRunning (current_server m), w)"
  by (simp add: call_tool_def)

lemma call_tool_active:
  "in_active m (current_server m) \<Longrightarrow>
   call_tool w m tool_name kwargs =
     ((case helper w tool_name kwargs of
         Raised e \<Rightarrow> CallFailed e tool_name
       | Completed rc err \<Rightarrow>
           (if rc = 0
            then ToolSuccess tool_name (''Tool '' @ tool_name @ '' called successfully'')
                   kwargs (clock w)
            else ExecutionFailed err tool_name)),
      logged (RunHelper tool_name) w)"
  by (simp add: call_tool_def split: helper_outcome.splits)

text \<open>
  Claim C1, as amended. A successful \<^verbatim>\<open>stop_server\<close> of the current server removes the
  name from the running map and leaves \<^verbatim>\<open>current_server\<close> as it was, still the
  stopped name; a following \<^verbatim>\<open>call_tool\<close>, in whatever state the OS then is, fails
  with the error ``Server <name> is not running''.
\<close>

theorem stop_server_keeps_pointer:
  assumes "current_server m = Some name"
    and "stop_server w m name = Some (Inr s, w', m')"
  shows "current_server m' = Some name \<and> active_servers m' name = None \<and>
         call_tool w'' m' tool_name kwargs = (ServerNotRunning (Some name), w'')"
proof -
  from stop_server_result [OF assms(2)] have m': "m' = unregister name m" by simp
  with assms(1) have c: "current_server m' = Some name" and a: "active_servers m' name = None"
    by simp_all
  then have "\<not> in_active m' (current_server m')" by (simp add: in_active_def)
  from call_tool_not_active [OF this] c a show ?thesis by simp
qed

theorem stop_server_keeps_pointer_witness:
  "current_server manager1 = Some ''SecureAudit'' \<and>
   stop_server world1 manager1 ''SecureAudit'' =
     Some (Inr (Stopped ''SecureAudit''), world2, manager2) \<and>
   current_server manager2 = Some ''SecureAudit'' \<and>
   active_servers manager2 ''SecureAudit'' = None \<and>
   call_tool world2 manager2 ''echo'' [] = (ServerNotRunning (Some ''SecureAudit''), world2)"
proof -
  have c: "current_server manager1 = Some ''SecureAudit''"
    by (simp add: manager1_def manager0_eq)
  show ?thesis
    using c stopped stop_server_keeps_pointer [OF c stopped, of world2 "''echo''" "[]"] by simp
qed

theorem stop_server_clears_pointer_counterexample:
  "current_server manager1 = Some ''SecureAudit'' \<and>
   stop_server world1 manager1 ''SecureAudit'' =
     Some (Inr (Stopped ''SecureAudit''), world2, manager2) \<and>
   current_server manager2 = Some ''SecureAudit'' \<and>
   current_server manager2 \<noteq> None"
  using stopped by (simp add: manager1_def manager2_def manager0_eq)

subsection \<open>Switching the current server\<close>

lemma switch_server_unknown:
  "servers (config m) name = None \<Longrightarrow> switch_server w m name = (Inl (NotFound name), w, m)"
  by (simp add: switch_server_def)

lemma switch_server_present:
  "servers (config m) name = Some cfg \<Longrightarrow> active_servers m name = Some info \<Longrightarrow>
   switch_server w m name = (Inr (Switched name), w, m\<lparr>current_server := Some name\<rparr>)"
  by (simp add: switch_server_def)

lemma switch_server_start_fails:
  assumes "servers (config m) name = Some cfg" and "active_servers m name = None"
    and "start_server w m name = (Inl e, w1, m1)"
  shows "switch_server w m name = (Inl (SwitchStartFailed name e), w, m)"
  using assms start_server_fails_absent [OF assms(2,3)] by (simp add: switch_server_def)

lemma switch_server_start_succeeds:
  assumes "servers (config m) name = Some cfg" and "active_servers m name = None"
    and "start_server w m name = (Inr s, w1, m1)"
  shows "switch_server w m name = (Inr (Switched name), w1, m1\<lparr>current_server := Some name\<rparr>)"
  using assms by (simp add: switch_server_def)

lemma switch_server_fails:
  assumes "switch_server w m name = (Inl e, w', m')"
  shows "w' = w \<and> m' = m"
proof (cases "servers (config m) name")
  case None
  with assms show ?thesis by (simp add: switch_server_unknown)
next
  case (Some cfg)
  show ?thesis
  proof (cases "active_servers m name")
    case (Some info)
    with \<open>servers (config m) name = Some cfg\<close> assms show ?thesis
      by (simp add: switch_server_present)
  next
    case None
    obtain r w1 m1 where st: "start_server w m name = (r, w1, m1)" by (cases "start_server w m name")
    show ?thesis
    proof (cases r)
      case (Inl e1)
      with st switch_server_start_fails [OF \<open>servers (config m) name = Some cfg\<close> None] assms
      show ?thesis by simp
    next
      case (Inr s)
      with st switch_server_start_succeeds [OF \<open>servers (config m) name = Some cfg\<close> None] assms
      show ?thesis by simp
    qed
  qed
qed

lemma switch_server_succeeds:
  assumes "switch_server w m name = (Inr s, w', m')"
  shows "s = Switched name \<and> current_server m' = Some name \<and> active_servers m' name \<noteq> None"
proof (cases "servers (config m) name")
  case None
  with assms show ?thesis by (simp add: switch_server_unknown)
next
  case (Some cfg)
  show ?thesis
  proof (cases "active_servers m name")
    case (Some info)
    with \<open>servers (config m) name = Some cfg\<close> assms show ?thesis
      by (auto simp: switch_server_present)
  next
    case None
    obtain r w1 m1 where st: "start_server w m name = (r, w1, m1)" by (cases "start_server w m name")
    show ?thesis
    proof (cases r)
      case (Inl e1)
      with st switch_server_start_fails [OF \<open>servers (config m) name = Some cfg\<close> None] assms
      show ?thesis by simp
    next
      case (Inr s1)
      with st have ok: "start_server w m name = (Inr s1, w1, m1)" by simp
      from start_server_succeeds [OF ok] have "active_servers m1 name \<noteq> None" by auto
      with ok switch_server_start_succeeds [OF \<open>servers (config m) name = Some cfg\<close> None ok] assms
      show ?thesis by auto
    qed
  qed
qed

text \<open>
  Claim C5, as amended. \<^verbatim>\<open>switch_server\<close> on a name that is not configured fails with
  ``not found'' and changes nothing. On a configured name that is not a key of the
  running map it calls \<^verbatim>\<open>start_server\<close>: when that fails, the failure is returned
  (wrapped with the name) and the state, the current server included, is unchanged;
  when it succeeds, the state is that of the start with the current server set to
  the name. On a configured name that is a key of the running map, whether its
  process is alive or has exited, nothing is started: it only sets the current
  server to the name. So every failure leaves the current server unchanged, and
  every success sets it to the name, which is then a key of the running map.
\<close>

theorem switch_server_cases:
  "(servers (config m) name = None \<longrightarrow>
      switch_server w m name = (Inl (NotFound name), w, m)) \<and>
   (\<forall>cfg e w1 m1. servers (config m) name = Some cfg \<longrightarrow> active_servers m name = None \<longrightarrow>
      start_server w m name = (Inl e, w1, m1) \<longrightarrow>
      switch_server w m name = (Inl (SwitchStartFailed name e), w, m)) \<and>
   (\<forall>cfg s w1 m1. servers (config m) name = Some cfg \<longrightarrow> active_servers m name = None \<longrightarrow>
      start_server w m name = (Inr s, w1, m1) \<longrightarrow>
      switch_server w m name = (Inr (Switched name), w1, m1\<lparr>current_server := Some name\<rparr>)) \<and>
   (\<forall>cfg info. servers (config m) name = Some cfg \<longrightarrow> active_servers m name = Some info \<longrightarrow>
      switch_server w m name = (Inr (Switched name), w, m\<lparr>current_server := Some name\<rparr>)) \<and>
   (\<forall>e w' m'. switch_server w m name = (Inl e, w', m') \<longrightarrow>
      current_server m' = current_server m) \<and>
   (\<forall>s w' m'. switch_server w m name = (Inr s, w', m') \<longrightarrow>
      current_server m' = Some name \<and> active_servers m' name \<noteq> None)"
proof (intro conjI allI impI)
  assume "servers (config m) name = None"
  then show "switch_server w m name = (Inl (NotFound name), w, m)"
    by (rule switch_server_unknown)
next
  fix cfg e w1 m1
  assume "servers (config m) name = Some cfg" and "active_servers m name = None"
    and "start_server w m name = (Inl e, w1, m1)"
  then show "switch_server w m name = (Inl (SwitchStartFailed name e), w, m)"
    by (rule switch_server_start_fails)
next
  fix cfg s w1 m1
  assume "servers (config m) name = Some cfg" and "active_servers m name = None"
    and "start_server w m name = (Inr s, w1, m1)"
  then show "switch_server w m name = (Inr (Switched name), w1, m1\<lparr>current_server := Some name\<rparr>)"
    by (rule switch_server_start_succeeds)
next
  fix cfg info
  assume "servers (config m) name = Some cfg" and "active_servers m name = Some info"
  then show "switch_server w m name = (Inr (Switched name), w, m\<lparr>current_server := Some name\<rparr>)"
    by (rule switch_server_present)
next
  fix e w' m'
  assume "switch_server w m name = (Inl e, w', m')"
  from switch_server_fails [OF this] show "current_server m' = current_server m" by simp
next
  fix s w' m'
  assume "switch_server w m name = (Inr s, w', m')"
  from switch_server_succeeds [OF this] show "current_server m' = Some name" by simp
next
  fix s w' m'
  assume "switch_server w m name = (Inr s, w', m')"
  from switch_server_succeeds [OF this] show "active_servers m' name \<noteq> None" by simp
qed

lemma started_sample:
  "start_server world1 manager1 ''SampleServer'' = (Inr (Started ''SampleServer''), world4, manager4)"
  by (simp add: start_server_def spawn_server_def server_commands_def Popen_def get_server_config_def
      world0_def manager0_eq world1_def manager1_def info1_def sample_file_def
      cfg_secure_def secure_argv_def sample_argv_def world4_def manager4_def logged_def)

lemma not_started_reporting:
  "start_server world1 manager1 ''Reporting'' = (Inl (UnknownServer ''Reporting''), world1, manager1)"
  by (simp add: start_server_def spawn_server_def server_commands_def get_server_config_def
      manager0_eq manager1_def sample_file_def cfg_secure_def)

theorem switch_server_cases_witness:
  "servers (config manager1) ''unknown'' = None \<and>
   switch_server world1 manager1 ''unknown'' = (Inl (NotFound ''unknown''), world1, manager1) \<and>
   servers (config manager1) ''Reporting'' = Some cfg_secure \<and>
   active_servers manager1 ''Reporting'' = None \<and>
   switch_server world1 manager1 ''Reporting'' =
     (Inl (SwitchStartFailed ''Reporting'' (UnknownServer ''Reporting'')), world1, manager1) \<and>
   servers (config manager1) ''SampleServer'' = Some cfg_secure \<and>
   active_servers manager1 ''SampleServer'' = None \<and>
   switch_server world1 manager1 ''SampleServer'' =
     (Inr (Switched ''SampleServer''), world4, manager4\<lparr>current_server := Some ''SampleServer''\<rparr>) \<and>
   active_servers manager4 ''SecureAudit'' = Some info1 \<and>
   switch_server world4 manager4 ''SecureAudit'' =
     (Inr (Switched ''SecureAudit''), world4, manager4\<lparr>current_server := Some ''SecureAudit''\<rparr>) \<and>
   current_server manager1 = Some ''SecureAudit''"
proof -
  have c: "config manager1 = sample_file" "config manager4 = sample_file"
    by (simp_all add: manager4_def manager1_def manager0_eq)
  have s1: "servers (config manager1) ''unknown'' = None"
    and s2: "servers (config manager1) ''Reporting'' = Some cfg_secure"
    and s3: "servers (config manager1) ''SampleServer'' = Some cfg_secure"
    and s4: "servers (config manager4) ''SecureAudit'' = Some cfg_secure"
    by (simp_all add: c sample_file_def)
  have a2: "active_servers manager1 ''Reporting'' = None"
    and a3: "active_servers manager1 ''SampleServer'' = None"
    and a4: "active_servers manager4 ''SecureAudit'' = Some info1"
    by (simp_all add: manager1_def manager4_def)
  have p: "current_server manager1 = Some ''SecureAudit''"
    by (simp add: manager1_def manager0_eq)
  note t1 = switch_server_cases [of manager1 "''unknown''" world1, THEN conjunct1, rule_format, OF s1]
  note t2 = switch_server_cases [of manager1 "''Reporting''" world1, THEN conjunct2,
      THEN conjunct1, rule_format, OF s2 a2 not_started_reporting]
  note t3 = switch_server_cases [of manager1 "''SampleServer''" world1, THEN conjunct2,
      THEN conjunct2, THEN conjunct1, rule_format, OF s3 a3 started_sample]
  note t4 = switch_server_cases [of manager4 "''SecureAudit''" world4, THEN conjunct2,
      THEN conjunct2, THEN conjunct2, THEN conjunct1, rule_format, OF s4 a4]
  show ?thesis
    by (intro conjI) (fact s1 t1 s2 a2 t2 s3 a3 t3 a4 t4 p)+
qed

text \<open>
  Without the amendment, claim C5 fails for a target that is not running but still
  registered: the worker of SecureAudit has exited, \<^verbatim>\<open>get_server_status\<close> reports it
  as ended, and \<^verbatim>\<open>switch_server\<close> succeeds without starting anything (the OS is left
  as it was, the process still exited).
\<close>

theorem switch_server_no_implicit_start_counterexample:
  "servers (config manager1) ''SecureAudit'' = Some cfg_secure \<and>
   active_servers manager1 ''SecureAudit'' = Some info1 \<and>
   returncode world_dead (process info1) = Some 1 \<and>
   fst (get_server_status world_dead manager1 ''SecureAudit'') = StatusEnded (Some 1) 0 \<and>
   switch_server world_dead manager1 ''SecureAudit'' =
     (Inr (Switched ''SecureAudit''), world_dead,
      manager1\<lparr>current_server := Some ''SecureAudit''\<rparr>) \<and>
   calls world_dead = [Spawn secure_argv]"
proof -
  have s: "servers (config manager1) ''SecureAudit'' = Some cfg_secure"
    by (simp add: manager1_def manager0_eq sample_file_def)
  have a: "active_servers manager1 ''SecureAudit'' = Some info1"
    by (simp add: manager1_def)
  have r: "returncode world_dead (process info1) = Some 1"
    by (simp add: returncode_def world_dead_def info1_def)
  have k: "clock world_dead = 0" and c: "calls world_dead = [Spawn secure_argv]"
    by (simp_all add: world_dead_def world1_def world0_def)
  have g: "fst (get_server_status world_dead manager1 ''SecureAudit'') = StatusEnded (Some 1) 0"
    by (simp add: get_server_status_exited [OF a r] k)
  note t = switch_server_present [OF s a, of world_dead]
  show ?thesis
    by (intro conjI) (fact s a r g t c)+
qed

subsection \<open>The current server over the life of the manager\<close>

lemma init_fields:
  "active_servers (init file) = Map.empty"
  "current_server (init file) =
     (case default_server (load_config file) of None \<Rightarrow> Some ''SecureAudit'' | Some d \<Rightarrow> d)"
  by (simp_all add: init_def Let_def)

text \<open>
  Claim C2, as amended. At startup the running map is empty and the current server
  is the configured default name (\<^verbatim>\<open>'SecureAudit'\<close> when the key is missing; it is
  \<^verbatim>\<open>None\<close> only for a JSON null). \<^verbatim>\<open>start_server\<close>, \<^verbatim>\<open>get_server_status\<close> and
  \<^verbatim>\<open>stop_server\<close> never change the current server; a failed \<^verbatim>\<open>switch_server\<close> leaves
  it unchanged, and a successful one sets it to a name that is a key of the running
  map at that moment.
\<close>

theorem current_server_lifecycle:
  "active_servers (init file) = Map.empty \<and>
   current_server (init file) =
     (case default_server (load_config file) of None \<Rightarrow> Some ''SecureAudit'' | Some d \<Rightarrow> d) \<and>
   current_server (snd (snd (start_server w m name))) = current_server m \<and>
   current_server (snd (snd (get_server_status w m name))) = current_server m \<and>
   (\<forall>r w' m'. stop_server w m name = Some (r, w', m') \<longrightarrow>
      current_server m' = current_server m) \<and>
   (\<forall>e w' m'. switch_server w m name = (Inl e, w', m') \<longrightarrow>
      current_server m' = current_server m) \<and>
   (\<forall>s w' m'. switch_server w m name = (Inr s, w', m') \<longrightarrow>
      current_server m' = Some name \<and> active_servers m' name \<noteq> None)"
proof (intro conjI allI impI)
  show "active_servers (init file) = Map.empty"
    by (rule init_fields)
  show "current_server (init file) =
     (case default_server (load_config file) of None \<Rightarrow> Some ''SecureAudit'' | Some d \<Rightarrow> d)"
    by (rule init_fields)
  show "current_server (snd (snd (start_server w m name))) = current_server m"
    by (rule start_server_pointer)
  show "current_server (snd (snd (get_server_status w m name))) = current_server m"
    by (simp add: get_server_status_pointer)
next
  fix r w' m'
  assume "stop_server w m name = Some (r, w', m')"
  then show "current_server m' = current_server m"
    by (rule stop_server_pointer)
next
  fix e w' m'
  assume "switch_server w m name = (Inl e, w', m')"
  from switch_server_fails [OF this] show "current_server m' = current_server m" by simp
next
  fix s w' m'
  assume "switch_server w m name = (Inr s, w', m')"
  from switch_server_succeeds [OF this] show "current_server m' = Some name" by simp
next
  fix s w' m'
  assume "switch_server w m name = (Inr s, w', m')"
  from switch_server_succeeds [OF this] show "active_servers m' name \<noteq> None" by simp
qed

lemma switched_sample:
  "switch_server world1 manager1 ''SampleServer'' =
     (Inr (Switched ''SampleServer''), world4, manager4\<lparr>current_server := Some ''SampleServer''\<rparr>)"
proof -
  have "servers (config manager1) ''SampleServer'' = Some cfg_secure"
    by (simp add: manager1_def manager0_eq sample_file_def)
  moreover have "active_servers manager1 ''SampleServer'' = None"
    by (simp add: manager1_def)
  ultimately show ?thesis
    using started_sample by (rule switch_server_start_succeeds)
qed

lemma not_switched_reporting:
  "switch_server world1 manager1 ''Reporting'' =
     (Inl (SwitchStartFailed ''Reporting'' (UnknownServer ''Reporting'')), world1, manager1)"
proof -
  have "servers (config manager1) ''Reporting'' = Some cfg_secure"
    by (simp add: manager1_def manager0_eq sample_file_def)
  moreover have "active_servers manager1 ''Reporting'' = None"
    by (simp add: manager1_def)
  ultimately show ?thesis
    using not_started_reporting by (rule switch_server_start_fails)
qed

theorem current_server_lifecycle_witness:
  "stop_server world1 manager1 ''SecureAudit'' =
     Some (Inr (Stopped ''SecureAudit''), world2, manager2) \<and>
   current_server manager2 = current_server manager1 \<and>
   switch_server world1 manager1 ''Reporting'' =
     (Inl (SwitchStartFailed ''Reporting'' (UnknownServer ''Reporting'')), world1, manager1) \<and>
   switch_server world1 manager1 ''SampleServer'' =
     (Inr (Switched ''SampleServer''), world4, manager4\<lparr>current_server := Some ''SampleServer''\<rparr>) \<and>
   current_server (manager4\<lparr>current_server := Some ''SampleServer''\<rparr>) = Some ''SampleServer'' \<and>
   active_servers (manager4\<lparr>current_server := Some ''SampleServer''\<rparr>) ''SampleServer'' \<noteq> None \<and>
   current_server (init None) = Some ''SecureAudit''"
proof -
  note t = current_server_lifecycle [of None world1 manager1]
  note t1 = t [of "''SecureAudit''", THEN conjunct2, THEN conjunct2, THEN conjunct2,
      THEN conjunct2, THEN conjunct1, rule_format, OF stopped]
  note t2 = t [of "''SampleServer''", THEN conjunct2, THEN conjunct2, THEN conjunct2,
      THEN conjunct2, THEN conjunct2, THEN conjunct2, rule_format, OF switched_sample]
  have t3: "current_server (init None) = Some ''SecureAudit''"
    using t [of "''SecureAudit''", THEN conjunct2, THEN conjunct1]
    by (simp add: load_config_def)
  show ?thesis
    using stopped not_switched_reporting switched_sample t1 t2 t3 by simp
qed

theorem pointer_invariant_counterexample:
  "current_server (init None) = Some ''SecureAudit'' \<and>
   active_servers (init None) ''SecureAudit'' = None \<and>
   current_server (init (Some sample_file)) = Some ''SecureAudit'' \<and>
   active_servers (init (Some sample_file)) ''SecureAudit'' = None \<and>
   stop_server world1 manager1 ''SecureAudit'' =
     Some (Inr (Stopped ''SecureAudit''), world2, manager2) \<and>
   current_server manager2 = Some ''SecureAudit'' \<and>
   active_servers manager2 ''SecureAudit'' = None"
  using stopped
  by (simp add: init_def load_config_def sample_file_def Let_def manager2_def manager0_eq)

subsection \<open>Tool calls\<close>

lemma call_tool_success:
  assumes "fst (call_tool w m tool_name kwargs) = ToolSuccess t r a ts"
  shows "t = tool_name \<and> r = ''Tool '' @ tool_name @ '' called successfully'' \<and>
      a = kwargs \<and> ts = clock w"
proof (cases "in_active m (current_server m)")
  case False
  with assms show ?thesis by (simp add: call_tool_not_active)
next
  case True
  show ?thesis
  proof (cases "helper w tool_name kwargs")
    case (Raised e)
    with True assms show ?thesis by (simp add: call_tool_active)
  next
    case (Completed rc err)
    with True assms show ?thesis
      by (cases "rc = 0") (auto simp: call_tool_active)
  qed
qed

lemma call_tool_response_depends:
  fixes w w2 :: os_world
  assumes "helper w2 = helper w" and "clock w2 = clock w"
  shows "fst (call_tool w2 m tool_name kwargs) = fst (call_tool w m tool_name kwargs)"
proof (cases "in_active m (current_server m)")
  case False
  then show ?thesis by (simp add: call_tool_not_active)
next
  case True
  with assms show ?thesis by (simp add: call_tool_active split: helper_outcome.splits)
qed

text \<open>
  Claim C3, as amended. The result of a successful \<^verbatim>\<open>call_tool\<close> is built by
  \<^verbatim>\<open>call_tool\<close> itself: the tool name, the fixed text ``Tool <name> called
  successfully'', the arguments as given and the time of the call. Nothing is read
  back from the worker: two states of the OS with the same helper-script outcome and
  the same clock give the same response, whatever their processes are.
\<close>

theorem call_tool_result_synthesised:
  "(\<forall>t r a ts. fst (call_tool w m tool_name kwargs) = ToolSuccess t r a ts \<longrightarrow>
      t = tool_name \<and> r = ''Tool '' @ tool_name @ '' called successfully'' \<and>
      a = kwargs \<and> ts = clock w) \<and>
   (\<forall>w2 :: os_world. helper w2 = helper w \<longrightarrow> clock w2 = clock w \<longrightarrow>
      fst (call_tool w2 m tool_name kwargs) = fst (call_tool w m tool_name kwargs))"
proof (intro conjI allI impI)
  fix t r a ts
  assume s: "fst (call_tool w m tool_name kwargs) = ToolSuccess t r a ts"
  from call_tool_success [OF s]
  show "t = tool_name" and "r = ''Tool '' @ tool_name @ '' called successfully''"
    and "a = kwargs" and "ts = clock w"
    by blast+
next
  fix w2 :: os_world
  assume "helper w2 = helper w" and "clock w2 = clock w"
  then show "fst (call_tool w2 m tool_name kwargs) = fst (call_tool w m tool_name kwargs)"
    by (rule call_tool_response_depends)
qed

lemma manager1_active:
  "current_server manager1 = Some ''SecureAudit''"
  "active_servers manager1 ''SecureAudit'' = Some info1"
  "in_active manager1 (current_server manager1)"
  by (simp_all add: manager1_def manager0_eq in_active_def)

lemma world1_helper:
  "helper world1 t a = Completed 0 []" "clock world1 = 0"
  "helper world_dead t a = Completed 0 []" "clock world_dead = 0"
  "helper world_stubborn = helper world1" "clock world_stubborn = clock world1"
  by (simp_all add: world1_def world0_def world_dead_def world_stubborn_def)

lemma called_echo:
  "fst (call_tool world1 manager1 ''echo'' [(''message'', JStr ''hi'')]) =
     ToolSuccess ''echo'' ''Tool echo called successfully'' [(''message'', JStr ''hi'')] 0"
  by (simp add: call_tool_active [OF manager1_active(3)] world1_helper)

lemma echo_would_reply:
  "worker_reply world1 manager1 ''echo'' [(''message'', JStr ''hi'')] = Some ''hi''"
  by (simp add: worker_reply_def manager1_active world1_def info1_def
        echo_program_def echo_reply_def)

theorem call_tool_result_synthesised_witness:
  "fst (call_tool world1 manager1 ''echo'' [(''message'', JStr ''hi'')]) =
     ToolSuccess ''echo'' ''Tool echo called successfully'' [(''message'', JStr ''hi'')] 0 \<and>
   (0::int) = clock world1 \<and>
   helper world_stubborn = helper world1 \<and> clock world_stubborn = clock world1 \<and>
   fst (call_tool world_stubborn manager1 ''echo'' [(''message'', JStr ''hi'')]) =
     fst (call_tool world1 manager1 ''echo'' [(''message'', JStr ''hi'')])"
proof -
  note t = call_tool_result_synthesised [of world1 manager1 "''echo''" "[(''message'', JStr ''hi'')]"]
  note t1 = t [THEN conjunct1, rule_format, OF called_echo]
  note t2 = t [THEN conjunct2, rule_format, OF world1_helper(5) world1_helper(6)]
  from t1 have k: "(0::int) = clock world1" by blast
  show ?thesis
    by (intro conjI) (fact called_echo k world1_helper(5) world1_helper(6) t2)+
qed

theorem call_tool_returns_worker_payload_counterexample:
  "fst (call_tool world1 manager1 ''echo'' [(''message'', JStr ''hi'')]) =
     ToolSuccess ''echo'' ''Tool echo called successfully'' [(''message'', JStr ''hi'')] 0 \<and>
   worker_reply world1 manager1 ''echo'' [(''message'', JStr ''hi'')] = Some ''hi'' \<and>
   ''Tool echo called successfully'' \<noteq> ''hi''"
proof (intro conjI)
  show "''Tool echo called successfully'' \<noteq> ''hi''" by simp
qed (fact called_echo echo_would_reply)+

text \<open>
  Claim C4, as amended. \<^verbatim>\<open>call_tool\<close> fails with the one error ``Server <name> is not
  running'' when the current server is \<^verbatim>\<open>None\<close> or is not a key of the running map,
  and then touches nothing. The test is membership in the map: when the entry is
  there, the process is not polled and the response is decided by the helper script
  alone, whether the worker process is alive or has exited.
\<close>

theorem call_tool_membership_check:
  "(current_server m = None \<longrightarrow>
      call_tool w m tool_name kwargs = (ServerNotRunning None, w)) \<and>
   (\<forall>n. current_server m = Some n \<longrightarrow> active_servers m n = None \<longrightarrow>
      call_tool w m tool_name kwargs = (ServerNotRunning (Some n), w)) \<and>
   (\<forall>n info. current_server m = Some n \<longrightarrow> active_servers m n = Some info \<longrightarrow>
      call_tool w m tool_name kwargs =
        ((case helper w tool_name kwargs of
            Raised e \<Rightarrow> CallFailed e tool_name
          | Completed rc err \<Rightarrow>
              (if rc = 0
               then ToolSuccess tool_name (''Tool '' @ tool_name @ '' called successfully'')
                      kwargs (clock w)
               else ExecutionFailed err tool_name)),
         w\<lparr>calls := calls w @ [RunHelper tool_name]\<rparr>))"
proof (intro conjI allI impI)
  assume "current_server m = None"
  then show "call_tool w m tool_name kwargs = (ServerNotRunning None, w)"
    using call_tool_not_active [of m w tool_name kwargs] by (simp add: in_active_def)
next
  fix n
  assume "current_server m = Some n" and "active_servers m n = None"
  then show "call_tool w m tool_name kwargs = (ServerNotRunning (Some n), w)"
    using call_tool_not_active [of m w tool_name kwargs] by (simp add: in_active_def)
next
  fix n info
  assume "current_server m = Some n" and "active_servers m n = Some info"
  then have "in_active m (current_server m)" by (simp add: in_active_def)
  from call_tool_active [OF this, of w tool_name kwargs]
  show "call_tool w m tool_name kwargs =
        ((case helper w tool_name kwargs of
            Raised e \<Rightarrow> CallFailed e tool_name
          | Completed rc err \<Rightarrow>
              (if rc = 0
               then ToolSuccess tool_name (''Tool '' @ tool_name @ '' called successfully'')
                      kwargs (clock w)
               else ExecutionFailed err tool_name)),
         w\<lparr>calls := calls w @ [RunHelper tool_name]\<rparr>)"
    by (simp add: logged_def)
qed

lemma dead_returncode: "returncode world_dead (process info1) = Some 1"
  by (simp add: returncode_def world_dead_def info1_def)

lemma called_dead:
  "fst (call_tool world_dead manager1 ''echo'' []) =
     ToolSuccess ''echo'' ''Tool echo called successfully'' [] 0"
  by (simp add: call_tool_active [OF manager1_active(3)] world1_helper)

theorem call_tool_membership_check_witness:
  "current_server manager_null = None \<and>
   call_tool world0 manager_null ''echo'' [] = (ServerNotRunning None, world0) \<and>
   current_server manager2 = Some ''SecureAudit'' \<and>
   active_servers manager2 ''SecureAudit'' = None \<and>
   call_tool world2 manager2 ''echo'' [] = (ServerNotRunning (Some ''SecureAudit''), world2) \<and>
   current_server manager1 = Some ''SecureAudit'' \<and>
   active_servers manager1 ''SecureAudit'' = Some info1 \<and>
   returncode world_dead (process info1) = Some 1 \<and>
   call_tool world_dead manager1 ''echo'' [] =
     (ToolSuccess ''echo'' ''Tool echo called successfully'' [] 0,
      world_dead\<lparr>calls := calls world_dead @ [RunHelper ''echo'']\<rparr>)"
proof -
  have c0: "current_server manager_null = None"
    by (simp add: manager_null_def init_def load_config_def Let_def)
  have c2: "current_server manager2 = Some ''SecureAudit''"
    and a2: "active_servers manager2 ''SecureAudit'' = None"
    by (simp_all add: manager2_def manager0_eq)
  note t0 = call_tool_membership_check [of manager_null world0 "''echo''" "[]",
      THEN conjunct1, rule_format, OF c0]
  note t2 = call_tool_membership_check [of manager2 world2 "''echo''" "[]",
      THEN conjunct2, THEN conjunct1, rule_format, OF c2 a2]
  note t1 = call_tool_membership_check [of manager1 world_dead "''echo''" "[]",
      THEN conjunct2, THEN conjunct2, rule_format, OF manager1_active(1) manager1_active(2)]
  have t1': "call_tool world_dead manager1 ''echo'' [] =
     (ToolSuccess ''echo'' ''Tool echo called successfully'' [] 0,
      world_dead\<lparr>calls := calls world_dead @ [RunHelper ''echo'']\<rparr>)"
    by (simp add: t1 world1_helper)
  show ?thesis
    by (intro conjI)
       (fact c0 t0 c2 a2 t2 manager1_active(1) manager1_active(2) dead_returncode t1')+
qed

theorem call_tool_liveness_counterexample:
  "current_server manager1 = Some ''SecureAudit'' \<and>
   active_servers manager1 ''SecureAudit'' = Some info1 \<and>
   os_exit 100 1 world1 = world_dead \<and>
   returncode world_dead (process info1) = Some 1 \<and>
   fst (call_tool world_dead manager1 ''echo'' []) =
     ToolSuccess ''echo'' ''Tool echo called successfully'' [] 0"
  by (intro conjI) (fact manager1_active(1) manager1_active(2) dead dead_returncode called_dead)+

subsection \<open>The command table of \<^verbatim>\<open>start_server\<close>\<close>








end
